theory Spec2Isabelle
  imports Complex_Main "HOL-Library.Sublist"
begin

section \<open>JavaScript values and the request validation\<close>

text \<open>
  Both \<^verbatim>\<open>src/server.js\<close> (the blocking variant built on \<^verbatim>\<open>execSync\<close>) and
  \<^verbatim>\<open>src/index.js\<close> (the event-driven variant built on fluent-ffmpeg) register one handler
  for \<^verbatim>\<open>POST /api/convert-m3u8\<close>. The handler reads \<^verbatim>\<open>req.body.url\<close>, which after
  \<^verbatim>\<open>express.json()\<close> is any JSON value or \<^verbatim>\<open>undefined\<close>. Numbers are kept as
  integers: the handler only tests them for truthiness and for their type.
\<close>

datatype jsval = JUndefined | JNull | JBool bool | JNum int | JStr string | JObject

fun js_truthy :: "jsval \<Rightarrow> bool" where
  "js_truthy JUndefined = False"
| "js_truthy JNull = False"
| "js_truthy (JBool b) = b"
| "js_truthy (JNum n) = (n \<noteq> 0)"
| "js_truthy (JStr s) = (s \<noteq> [])"
| "js_truthy JObject = True"

fun js_typeof :: "jsval \<Rightarrow> string" where
  "js_typeof JUndefined = ''undefined''"
| "js_typeof JNull = ''object''"
| "js_typeof (JBool b) = ''boolean''"
| "js_typeof (JNum n) = ''number''"
| "js_typeof (JStr s) = ''string''"
| "js_typeof JObject = ''object''"

text \<open>\<^verbatim>\<open>String.prototype.startsWith\<close>: the first \<open>length p\<close> characters are \<open>p\<close>.\<close>

definition startsWith :: "string \<Rightarrow> string \<Rightarrow> bool" where
  "startsWith s p = (take (length p) s = p)"

text \<open>
  The guard of both handlers,
  \<^verbatim>\<open>!m3u8Url || typeof m3u8Url !== 'string' || !m3u8Url.startsWith('http')\<close>,
  with the short-circuit evaluation of \<^verbatim>\<open>||\<close> written out: \<^verbatim>\<open>startsWith\<close> is
  only reached on a string.
\<close>

definition url_rejected :: "jsval \<Rightarrow> bool" where
  "url_rejected m3u8Url =
     (if \<not> js_truthy m3u8Url then True
      else if js_typeof m3u8Url \<noteq> ''string'' then True
      else (case m3u8Url of JStr s \<Rightarrow> \<not> startsWith s ''http'' | _ \<Rightarrow> True))"

text \<open>The string a value holds once the guard has let it through.\<close>

fun str_of :: "jsval \<Rightarrow> string" where
  "str_of (JStr s) = s"
| "str_of _ = []"

subsection \<open>The scheme of an absolute URL, as the specification words it\<close>

text \<open>
  The specification asks for a well-formed absolute URL with scheme http or https. An
  absolute URL is \<open>scheme ":" rest\<close>; \<open>url_scheme\<close> returns the text before the first
  colon when there is a colon, and \<open>spec_http_scheme\<close> is the specification's condition on
  it. Every well-formed absolute http(s) URL satisfies \<open>spec_http_scheme\<close>.
\<close>

definition url_scheme :: "string \<Rightarrow> string option" where
  "url_scheme s = (if CHR '':'' \<in> set s then Some (takeWhile (\<lambda>c. c \<noteq> CHR '':'') s) else None)"

definition spec_http_scheme :: "string \<Rightarrow> bool" where
  "spec_http_scheme s = (url_scheme s = Some ''http'' \<or> url_scheme s = Some ''https'')"

section \<open>Numbers in template strings\<close>

text \<open>
  \<^verbatim>\<open>`converted_${Date.now()}.mp4`\<close> writes a non-negative integer in decimal.
\<close>

definition digit_char :: "nat \<Rightarrow> char" where
  "digit_char d = ''0123456789'' ! d"

function decimal :: "nat \<Rightarrow> string" where
  "decimal n = (if 10 \<le> n then decimal (n div 10) else []) @ [digit_char (n mod 10)]"
  by pat_completeness auto
termination
  by (relation "measure id") auto

declare decimal.simps [simp del]

text \<open>A whole number that may be negative, as \<^verbatim>\<open>Math.floor\<close> returns it.\<close>

definition number_string :: "int \<Rightarrow> string" where
  "number_string i = (if 0 \<le> i then decimal (nat i) else CHR ''-'' # decimal (nat \<bar>i\<bar>))"

section \<open>POSIX paths\<close>

text \<open>
  Node's \<^verbatim>\<open>path.join\<close> and \<^verbatim>\<open>path.basename\<close> on POSIX. \<^verbatim>\<open>join\<close> glues its
  non-empty arguments with a slash and normalises the result: empty and \<^verbatim>\<open>.\<close> segments
  vanish, \<^verbatim>\<open>..\<close> removes the segment before it (and is kept only in a relative path
  that has nothing left to remove).
\<close>

fun splitOn :: "char \<Rightarrow> string \<Rightarrow> string list" where
  "splitOn c [] = [[]]"
| "splitOn c (x # xs) =
     (if x = c then [] # splitOn c xs
      else (case splitOn c xs of [] \<Rightarrow> [[x]] | w # ws \<Rightarrow> (x # w) # ws))"

fun intercalate :: "string \<Rightarrow> string list \<Rightarrow> string" where
  "intercalate sep [] = []"
| "intercalate sep [x] = x"
| "intercalate sep (x # y # ys) = x @ sep @ intercalate sep (y # ys)"

fun normalizeSegs :: "bool \<Rightarrow> string list \<Rightarrow> string list \<Rightarrow> string list" where
  "normalizeSegs allowAboveRoot res [] = res"
| "normalizeSegs allowAboveRoot res (s # ss) =
     (if s = [] \<or> s = ''.'' then normalizeSegs allowAboveRoot res ss
      else if s = ''..'' then
        (if res \<noteq> [] \<and> last res \<noteq> ''..'' then normalizeSegs allowAboveRoot (butlast res) ss
         else if allowAboveRoot then normalizeSegs allowAboveRoot (res @ [''..'']) ss
         else normalizeSegs allowAboveRoot res ss)
      else normalizeSegs allowAboveRoot (res @ [s]) ss)"

definition path_normalize :: "string \<Rightarrow> string" where
  "path_normalize p =
     (if p = [] then ''.''
      else
        let isAbsolute = (hd p = CHR ''/'');
            trailingSeparator = (last p = CHR ''/'');
            q = intercalate ''/'' (normalizeSegs (\<not> isAbsolute) [] (splitOn CHR ''/'' p))
        in if q = [] then (if isAbsolute then ''/'' else if trailingSeparator then ''./'' else ''.'')
           else (if isAbsolute then ''/'' else []) @ q @ (if trailingSeparator then ''/'' else []))"

definition path_join :: "string list \<Rightarrow> string" where
  "path_join args =
     (let joined = intercalate ''/'' (filter (\<lambda>a. a \<noteq> []) args)
      in if joined = [] then ''.'' else path_normalize joined)"

definition path_basename :: "string \<Rightarrow> string" where
  "path_basename p =
     rev (takeWhile (\<lambda>c. c \<noteq> CHR ''/'') (dropWhile (\<lambda>c. c = CHR ''/'') (rev p)))"

section \<open>How the shell splits a command line\<close>

text \<open>
  \<^verbatim>\<open>execSync(command)\<close> hands the string to \<^verbatim>\<open>/bin/sh -c\<close>, which splits it into the
  words the program is started with. The part of the POSIX rules the command line of
  \<^verbatim>\<open>src/server.js\<close> needs: blanks separate words; a double quote opens a quoted stretch
  that runs to the next double quote, in which blanks and operators are ordinary
  characters; quoted and unquoted stretches that touch form one word. \<open>None\<close> stands for
  a command line outside this part: an unclosed quote, or a character with a meaning of
  its own to the shell (an operator, an expansion, a backslash, a single quote, a pattern
  character) where that meaning applies.
\<close>

definition sh_meta :: "char \<Rightarrow> bool" where
  "sh_meta c = (c \<in> set [CHR ''|'', CHR ''&'', CHR '';'', CHR ''('', CHR '')'', CHR ''<'', CHR ''>'',
      CHR ''$'', CHR 0x60, CHR 0x5C, CHR 0x27, CHR ''*'', CHR ''?'', CHR ''['', CHR ''#'', CHR ''~'',
      CHR ''!'', CHR ''{'', CHR ''}'', CHR 0x0A])"

definition sh_blank :: "char \<Rightarrow> bool" where
  "sh_blank c = (c = CHR '' '' \<or> c = CHR 0x09)"

definition dq_special :: "char \<Rightarrow> bool" where
  "dq_special c = (c = CHR ''$'' \<or> c = CHR 0x60 \<or> c = CHR 0x5C)"

fun sh_unquoted :: "string option \<Rightarrow> string \<Rightarrow> string list option"
  and sh_dquoted :: "string \<Rightarrow> string \<Rightarrow> string list option" where
  "sh_unquoted w [] = Some (case w of None \<Rightarrow> [] | Some x \<Rightarrow> [x])"
| "sh_unquoted w (c # cs) =
     (if sh_blank c then
        (case w of
           None \<Rightarrow> sh_unquoted None cs
         | Some x \<Rightarrow> map_option ((#) x) (sh_unquoted None cs))
      else if c = CHR 0x22 then sh_dquoted (case w of None \<Rightarrow> [] | Some x \<Rightarrow> x) cs
      else if sh_meta c then None
      else sh_unquoted (Some ((case w of None \<Rightarrow> [] | Some x \<Rightarrow> x) @ [c])) cs)"
| "sh_dquoted x [] = None"
| "sh_dquoted x (c # cs) =
     (if c = CHR 0x22 then sh_unquoted (Some x) cs
      else if dq_special c then None
      else sh_dquoted (x @ [c]) cs)"

definition sh_words :: "string \<Rightarrow> string list option" where
  "sh_words s = sh_unquoted None s"

text \<open>A string that a pair of double quotes keeps as it is.\<close>

definition dq_plain :: "string \<Rightarrow> bool" where
  "dq_plain s = list_all (\<lambda>c. c \<noteq> CHR 0x22 \<and> \<not> dq_special c) s"

section \<open>The file system, responses and effects\<close>

text \<open>
  The part of the file system the handlers touch: which paths exist (with their contents)
  and for which paths \<^verbatim>\<open>fs.unlinkSync\<close> throws (permissions, a busy file), with the
  message of the exception. \<^verbatim>\<open>fs.existsSync\<close> never throws.
\<close>

record filesystem =
  files :: "string \<rightharpoonup> string"
  unlink_error :: "string \<rightharpoonup> string"

definition existsSync :: "filesystem \<Rightarrow> string \<Rightarrow> bool" where
  "existsSync fs p = (files fs p \<noteq> None)"

definition unlinkSync :: "filesystem \<Rightarrow> string \<Rightarrow> string + filesystem" where
  "unlinkSync fs p =
     (case unlink_error fs p of
        Some e \<Rightarrow> Inl e
      | None \<Rightarrow>
          (case files fs p of
             None \<Rightarrow> Inl ''ENOENT: no such file or directory''
           | Some c \<Rightarrow> Inr (fs\<lparr>files := (files fs)(p := None)\<rparr>)))"

text \<open>
  The JSON body and status of an HTTP response. A key the handler does not write is
  \<open>None\<close> (message) or \<open>JUndefined\<close> (downloadUrl); \<^verbatim>\<open>res.json\<close> without
  \<^verbatim>\<open>res.status\<close> answers 200.
\<close>

record response =
  status :: nat
  success :: bool
  message :: "string option"
  downloadUrl :: jsval

text \<open>What fluent-ffmpeg is asked to run in \<^verbatim>\<open>src/index.js\<close>.\<close>

record invocation =
  inv_input :: string
  inv_timeout :: nat
  inputOptions :: "string list"
  outputOptions :: "string list"
  inv_output :: string

text \<open>
  The observable actions of a handler, in the order they happen. \<open>ExecSync c\<close> is the
  call \<^verbatim>\<open>execSync(c)\<close>: it starts the shell command and suspends the Node.js process
  until the command has exited. \<open>Spawn i\<close> is \<^verbatim>\<open>.save(outputPath)\<close> of fluent-ffmpeg:
  it starts the process and returns at once.
\<close>

datatype effect =
    ConsoleLog "jsval list"
  | ConsoleError "jsval list"
  | ExecSync string
  | Spawn invocation
  | Respond response

fun responses :: "effect list \<Rightarrow> response list" where
  "responses [] = []"
| "responses (Respond r # es) = r # responses es"
| "responses (e # es) = responses es"

fun spawned :: "effect list \<Rightarrow> invocation list" where
  "spawned [] = []"
| "spawned (Spawn i # es) = i # spawned es"
| "spawned (e # es) = spawned es"

fun executed :: "effect list \<Rightarrow> string list" where
  "executed [] = []"
| "executed (ExecSync c # es) = c # executed es"
| "executed (e # es) = executed es"

text \<open>\<^verbatim>\<open>res.headersSent\<close>: a response has been written.\<close>

definition headersSent :: "effect list \<Rightarrow> bool" where
  "headersSent tr = (responses tr \<noteq> [])"

section \<open>Names shared by both variants\<close>

definition outputFileName :: "nat \<Rightarrow> string" where
  "outputFileName now = ''converted_'' @ decimal now @ ''.mp4''"

definition protocol_whitelist :: string where
  "protocol_whitelist = ''file,http,https,tcp,tls,crypto''"

section \<open>The blocking variant: \<^verbatim>\<open>src/server.js\<close>\<close>

text \<open>
  \<open>dirname\<close> is \<^verbatim>\<open>__dirname\<close>, \<open>now\<close> the value of \<^verbatim>\<open>Date.now()\<close>, and
  \<open>execSync\<close> the external world: given the command and the file system it finds, whether
  the call returns (exit code 0) or throws, and the file system the process leaves. The
  process is taken to exit: a call to \<^verbatim>\<open>execSync\<close> that never comes back is not a run of
  this model.
\<close>

definition publicDownloadsDir :: "string \<Rightarrow> string" where
  "publicDownloadsDir dirname = path_join [dirname, ''public'', ''downloads'']"

definition server_outputPath :: "string \<Rightarrow> nat \<Rightarrow> string" where
  "server_outputPath dirname now = path_join [publicDownloadsDir dirname, outputFileName now]"

definition publicDownloadUrl :: "nat \<Rightarrow> string" where
  "publicDownloadUrl now = ''/downloads/'' @ outputFileName now"

definition dq :: string where
  "dq = [CHR 0x22]"

definition command :: "string \<Rightarrow> string \<Rightarrow> string" where
  "command m3u8Url outputPath =
     ''ffmpeg -y -protocol_whitelist '' @ protocol_whitelist @ '' -i '' @ dq @ m3u8Url @ dq @
     '' -bsf:a aac_adtstoasc -c copy '' @ dq @ outputPath @ dq"

datatype exec_result = ExecReturns | ExecThrows string

definition server_cleanup :: "string \<Rightarrow> filesystem \<Rightarrow> effect list \<times> filesystem" where
  "server_cleanup outputPath fs =
     (if existsSync fs outputPath then
        (case unlinkSync fs outputPath of
           Inr fs' \<Rightarrow>
             ([ConsoleLog [JStr (''[Backend] Deleted incomplete file on error: '' @ outputPath)]], fs')
         | Inl e \<Rightarrow>
             ([ConsoleError [JStr (''[Backend] Error deleting incomplete file: '' @ e)]], fs))
      else ([], fs))"

definition server_handler ::
  "string \<Rightarrow> nat \<Rightarrow> (string \<Rightarrow> filesystem \<Rightarrow> exec_result \<times> filesystem) \<Rightarrow>
   jsval \<Rightarrow> filesystem \<Rightarrow> effect list \<times> filesystem" where
  "server_handler dirname now execSync m3u8Url fs =
     (if url_rejected m3u8Url then
        ([ConsoleLog [JStr ''[Backend] Invalid M3U8 URL received:'', m3u8Url],
          Respond \<lparr>status = 400, success = False,
                   message = Some ''Invalid or missing M3U8 URL in request body'',
                   downloadUrl = JUndefined\<rparr>], fs)
      else
        (let outputPath = server_outputPath dirname now;
             cmd = command (str_of m3u8Url) outputPath;
             tr0 = [ConsoleLog [JStr (''[Backend] Received request for: '' @ str_of m3u8Url)],
                    ConsoleLog [JStr (''[Backend] Output path: '' @ outputPath)],
                    ConsoleLog [JStr ''[Backend] Using execSync (synchronous/blocking)...''],
                    ConsoleLog [JStr (''[Backend] Executing command: '' @ cmd)],
                    ExecSync cmd]
         in case execSync cmd fs of
              (ExecReturns, fs1) \<Rightarrow>
                (tr0 @ [ConsoleLog [JStr (''[Backend] execSync finished successfully for: '' @ outputPath)],
                        Respond \<lparr>status = 200, success = True, message = None,
                                 downloadUrl = JStr (publicDownloadUrl now)\<rparr>], fs1)
            | (ExecThrows msg, fs1) \<Rightarrow>
                (let tr1 = tr0 @
                       [ConsoleError [JStr (''[Backend] Error executing FFmpeg with execSync: '' @ msg)],
                        ConsoleError [JStr ''[Backend] FFmpeg likely failed. Check output above for FFmpeg errors.'']];
                     (cl, fs2) = server_cleanup outputPath fs1;
                     tr2 = tr1 @ cl
                 in (if \<not> headersSent tr2 then
                       tr2 @ [Respond \<lparr>status = 500, success = False,
                                       message = Some ''FFmpeg conversion failed (execSync). Check backend logs.'',
                                       downloadUrl = JUndefined\<rparr>]
                     else tr2, fs2))))"

section \<open>The event-driven variant: \<^verbatim>\<open>src/index.js\<close>\<close>

text \<open>
  The handler builds the fluent-ffmpeg command inside \<^verbatim>\<open>try\<close>; \<open>setup\<close> says
  whether that returns or throws (with the exception's message). The state of one request
  is the flag \<^verbatim>\<open>responseSent\<close>, what has been done so far, and the file system.
  The callbacks registered with \<^verbatim>\<open>.on\<close> run later, one per event fluent-ffmpeg emits.
\<close>

definition outputDir :: string where
  "outputDir = ''/tmp''"

definition index_outputPath :: "nat \<Rightarrow> string" where
  "index_outputPath now = path_join [outputDir, outputFileName now]"

definition index_invocation :: "string \<Rightarrow> string \<Rightarrow> invocation" where
  "index_invocation m3u8Url outputPath =
     \<lparr>inv_input = m3u8Url, inv_timeout = 432000,
      inputOptions = [''-protocol_whitelist'', protocol_whitelist],
      outputOptions = [''-bsf:a'', ''aac_adtstoasc'', ''-c'', ''copy''],
      inv_output = outputPath\<rparr>"

record req_state =
  responseSent :: bool
  trace :: "effect list"
  disk :: filesystem

datatype setup_result = SetupReturns | SetupThrows string

datatype ffmpeg_event = Progress "rat option" | Error string jsval | End

definition on_setup_exception :: "string \<Rightarrow> req_state \<Rightarrow> req_state" where
  "on_setup_exception msg s =
     (if \<not> responseSent s then
        s\<lparr>responseSent := True,
          trace := trace s @
            [ConsoleError [JStr ''[Backend] Error setting up FFmpeg command:'', JObject],
             Respond \<lparr>status = 500, success = False,
                      message = Some (''Server error setting up conversion: '' @ msg),
                      downloadUrl = JUndefined\<rparr>]\<rparr>
      else s)"

definition index_handler :: "nat \<Rightarrow> setup_result \<Rightarrow> jsval \<Rightarrow> filesystem \<Rightarrow> req_state" where
  "index_handler now setup m3u8Url fs0 =
     (if url_rejected m3u8Url then
        \<lparr>responseSent = False,
         trace = [ConsoleLog [JStr ''[Backend] Invalid M3U8 URL received:'', m3u8Url],
                  Respond \<lparr>status = 400, success = False,
                           message = Some ''Invalid or missing M3U8 URL'',
                           downloadUrl = JUndefined\<rparr>],
         disk = fs0\<rparr>
      else
        (let outputPath = index_outputPath now;
             s0 = \<lparr>responseSent = False,
                   trace = [ConsoleLog [JStr (''[Backend] Received request for: '' @ str_of m3u8Url)],
                            ConsoleLog [JStr (''[Backend] Temporary output path: '' @ outputPath)]],
                   disk = fs0\<rparr>
         in case setup of
              SetupReturns \<Rightarrow>
                s0\<lparr>trace := trace s0 @ [Spawn (index_invocation (str_of m3u8Url) outputPath)]\<rparr>
            | SetupThrows msg \<Rightarrow> on_setup_exception msg s0))"

definition on_progress :: "rat option \<Rightarrow> req_state \<Rightarrow> req_state" where
  "on_progress percent s =
     (case percent of
        None \<Rightarrow> s
      | Some q \<Rightarrow>
          (if q \<noteq> 0 then
             s\<lparr>trace := trace s @
                 [ConsoleLog [JStr (''[FFmpeg] Processing: '' @ number_string \<lfloor>q\<rfloor> @ ''% done'')]]\<rparr>
           else s))"

definition index_cleanup :: "string \<Rightarrow> filesystem \<Rightarrow> effect list \<times> filesystem" where
  "index_cleanup outputPath fs =
     (if existsSync fs outputPath then
        (case unlinkSync fs outputPath of
           Inr fs' \<Rightarrow> ([], fs')
         | Inl e \<Rightarrow> ([ConsoleError [JStr (''Error deleting tmp file: '' @ e)]], fs))
      else ([], fs))"

definition on_error :: "string \<Rightarrow> string \<Rightarrow> jsval \<Rightarrow> req_state \<Rightarrow> req_state" where
  "on_error outputPath errMessage stderr s =
     (if responseSent s then s
      else
        (let tr1 = trace s @
               [ConsoleError [JStr ''[Backend] FFmpeg error:'', JStr errMessage],
                ConsoleError [JStr ''[Backend] FFmpeg stderr:'',
                              if js_truthy stderr then stderr else JStr ''Not available'']];
             (cl, fs1) = index_cleanup outputPath (disk s)
         in \<lparr>responseSent = True,
             trace = tr1 @ cl @
               [Respond \<lparr>status = 500, success = False,
                         message = Some (''FFmpeg conversion failed: '' @ errMessage),
                         downloadUrl = JUndefined\<rparr>],
             disk = fs1\<rparr>))"

definition on_end :: "string \<Rightarrow> req_state \<Rightarrow> req_state" where
  "on_end outputPath s =
     (if responseSent s then s
      else
        s\<lparr>responseSent := True,
          trace := trace s @
            [ConsoleLog [JStr (''[Backend] Conversion finished successfully to tmp path: '' @ outputPath)],
             ConsoleLog [JStr ''[Backend] NOTE: File saved to temporary storage. Needs upload step for download.''],
             Respond \<lparr>status = 200, success = True,
                      message = Some ''Conversion successful (file in temporary storage).'',
                      downloadUrl = JNull\<rparr>]\<rparr>)"

fun deliver :: "string \<Rightarrow> ffmpeg_event \<Rightarrow> req_state \<Rightarrow> req_state" where
  "deliver outputPath (Progress percent) s = on_progress percent s"
| "deliver outputPath (Error errMessage stderr) s = on_error outputPath errMessage stderr s"
| "deliver outputPath End s = on_end outputPath s"

fun run_events :: "string \<Rightarrow> req_state \<Rightarrow> ffmpeg_event list \<Rightarrow> req_state" where
  "run_events outputPath s [] = s"
| "run_events outputPath s (e # es) = run_events outputPath (deliver outputPath e s) es"

fun is_terminal :: "ffmpeg_event \<Rightarrow> bool" where
  "is_terminal (Progress percent) = False"
| "is_terminal (Error errMessage stderr) = True"
| "is_terminal End = True"

section \<open>Facts about paths and file names\<close>

lemma splitOn_nonempty: "splitOn c xs \<noteq> []"
  by (induction xs) (auto split: list.splits)

lemma splitOn_no_sep: "c \<notin> set f \<Longrightarrow> splitOn c f = [f]"
  by (induction f) auto

lemma splitOn_append_sep:
  "c \<notin> set f \<Longrightarrow> splitOn c (xs @ c # f) = splitOn c xs @ [f]"
proof (induction xs)
  case Nil
  then show ?case by (simp add: splitOn_no_sep)
next
  case (Cons x xs)
  then show ?case
    using splitOn_nonempty [of c xs] by (cases "splitOn c xs") auto
qed

lemma normalizeSegs_append:
  "normalizeSegs a res (xs @ ys) = normalizeSegs a (normalizeSegs a res xs) ys"
  by (induction xs arbitrary: res) auto

lemma normalizeSegs_file:
  "f \<noteq> [] \<Longrightarrow> f \<noteq> ''.'' \<Longrightarrow> f \<noteq> ''..'' \<Longrightarrow> normalizeSegs a res [f] = res @ [f]"
  by simp

lemma intercalate_snoc:
  "intercalate sep (st @ [f]) = (if st = [] then f else intercalate sep st @ sep @ f)"
  by (induction sep st rule: intercalate.induct) auto

lemma last_not_sep: "f \<noteq> [] \<Longrightarrow> c \<notin> set f \<Longrightarrow> last f \<noteq> c"
  using last_in_set [of f] by auto

lemma path_basename_file:
  assumes "f \<noteq> []" and "CHR ''/'' \<notin> set f" and "P = [] \<or> last P = CHR ''/''"
  shows "path_basename (P @ f) = f"
proof -
  from assms(1,2) have hd: "hd (rev f) \<noteq> CHR ''/''" and ne: "rev f \<noteq> []"
    using last_not_sep [of f "CHR ''/''"] by (auto simp: hd_rev)
  then have dw: "dropWhile (\<lambda>c. c = CHR ''/'') (rev f @ rev P) = rev f @ rev P"
    by (cases "rev f") auto
  have tw: "takeWhile (\<lambda>c. c \<noteq> CHR ''/'') (rev f @ rev P) = rev f"
  proof (cases "P = []")
    case True
    with assms(2) show ?thesis by (auto simp: takeWhile_eq_all_conv)
  next
    case False
    with assms(3) have "hd (rev P) = CHR ''/''" by (simp add: hd_rev)
    with False obtain r where "rev P = CHR ''/'' # r" by (cases "rev P") auto
    with assms(2) show ?thesis by (auto simp: takeWhile_tail)
  qed
  show ?thesis by (simp add: path_basename_def dw tw)
qed

lemma digit_char_digit: "k < 10 \<Longrightarrow> digit_char k \<in> set ''0123456789''"
  unfolding digit_char_def by (rule nth_mem) simp

lemma decimal_digits: "set (decimal n) \<subseteq> set ''0123456789''"
proof (induction n rule: decimal.induct)
  case (1 n)
  have "digit_char (n mod 10) \<in> set ''0123456789''"
    by (rule digit_char_digit) simp
  with 1 show ?case
    by (subst decimal.simps) (cases "10 \<le> n"; simp)
qed

lemma outputFileName_plain:
  "outputFileName now \<noteq> []" "CHR ''/'' \<notin> set (outputFileName now)"
  "outputFileName now \<noteq> ''.''" "outputFileName now \<noteq> ''..''"
  using decimal_digits [of now] by (auto simp: outputFileName_def)

lemma path_join_file:
  assumes "f \<noteq> []" and "CHR ''/'' \<notin> set f" and "f \<noteq> ''.''" and "f \<noteq> ''..''"
  shows "\<exists>P. path_join [dir, f] = P @ f \<and> (P = [] \<or> last P = CHR ''/'')"
proof -
  define joined where "joined = intercalate ''/'' (filter (\<lambda>a. a \<noteq> []) [dir, f])"
  have j: "joined = (if dir = [] then f else dir @ CHR ''/'' # f)"
    using assms(1) by (simp add: joined_def)
  have ne: "joined \<noteq> []" using assms(1) by (simp add: j)
  have lastj: "last joined \<noteq> CHR ''/''"
    using assms(1,2) last_not_sep [of f "CHR ''/''"] by (simp add: j)
  have segs: "\<exists>ds. splitOn CHR ''/'' joined = ds @ [f]"
  proof (cases "dir = []")
    case True
    then show ?thesis using assms(2) by (simp add: j splitOn_no_sep)
  next
    case False
    then show ?thesis using assms(2) by (simp add: j splitOn_append_sep)
  qed
  then obtain ds where ds: "splitOn CHR ''/'' joined = ds @ [f]" ..
  define a where "a = (hd joined \<noteq> CHR ''/'')"
  define st where "st = normalizeSegs a [] ds"
  have q: "intercalate ''/'' (normalizeSegs a [] (splitOn CHR ''/'' joined)) =
        (if st = [] then f else intercalate ''/'' st @ ''/'' @ f)"
    using assms by (simp add: ds normalizeSegs_append st_def intercalate_snoc)
  have qne: "intercalate ''/'' (normalizeSegs a [] (splitOn CHR ''/'' joined)) \<noteq> []"
    using assms(1) by (simp add: q)
  have "path_join [dir, f] = path_normalize joined"
    using ne by (simp add: path_join_def joined_def Let_def)
  also have "\<dots> = (if hd joined = CHR ''/'' then ''/'' else []) @
        (if st = [] then f else intercalate ''/'' st @ ''/'' @ f)"
    using ne lastj qne q by (simp add: path_normalize_def Let_def a_def)
  finally have pj: "path_join [dir, f] = (if hd joined = CHR ''/'' then ''/'' else []) @
        (if st = [] then f else intercalate ''/'' st @ ''/'' @ f)" .
  show ?thesis
  proof (cases "st = []")
    case True
    then show ?thesis using pj by auto
  next
    case False
    then have "path_join [dir, f] =
        ((if hd joined = CHR ''/'' then ''/'' else []) @ intercalate ''/'' st @ ''/'') @ f"
      using pj by simp
    moreover have "last ((if hd joined = CHR ''/'' then ''/'' else []) @ intercalate ''/'' st @ ''/'') = CHR ''/''"
      by simp
    ultimately show ?thesis by blast
  qed
qed

lemma path_basename_join:
  assumes "f \<noteq> []" and "CHR ''/'' \<notin> set f" and "f \<noteq> ''.''" and "f \<noteq> ''..''"
  shows "path_basename (path_join [dir, f]) = f"
proof -
  from path_join_file [OF assms, of dir] obtain P
    where "path_join [dir, f] = P @ f" and "P = [] \<or> last P = CHR ''/''" by blast
  then show ?thesis using path_basename_file [OF assms(1,2), of P] by simp
qed

section \<open>Facts about the validation\<close>

lemma startsWith_prefix: "startsWith s p = prefix p s"
  by (auto simp: startsWith_def prefix_def) (metis append_take_drop_id)

lemma startsWith_nonempty: "startsWith s ''http'' \<Longrightarrow> s \<noteq> []"
  by (auto simp: startsWith_def)

lemma url_accepted_iff: "\<not> url_rejected v \<longleftrightarrow> (\<exists>s. v = JStr s \<and> startsWith s ''http'')"
  by (cases v) (auto simp: url_rejected_def dest: startsWith_nonempty split: if_splits)

lemma url_accepted_str: "\<not> url_rejected v \<Longrightarrow> v = JStr (str_of v)"
  by (cases v) (auto simp: url_rejected_def split: if_splits)

section \<open>Facts about the handlers\<close>

lemma responses_append: "responses (xs @ ys) = responses xs @ responses ys"
  by (induction xs rule: responses.induct) auto

lemma spawned_append: "spawned (xs @ ys) = spawned xs @ spawned ys"
  by (induction xs rule: spawned.induct) auto

lemma executed_append: "executed (xs @ ys) = executed xs @ executed ys"
  by (induction xs rule: executed.induct) auto

lemma index_cleanup_quiet:
  "responses (fst (index_cleanup p f)) = []" "executed (fst (index_cleanup p f)) = []"
  "spawned (fst (index_cleanup p f)) = []"
  by (auto simp: index_cleanup_def split: sum.splits)

lemma server_cleanup_quiet:
  "responses (fst (server_cleanup p f)) = []" "executed (fst (server_cleanup p f)) = []"
  by (auto simp: server_cleanup_def split: sum.splits)

lemma on_error_responses:
  "responses (trace (on_error p err stderr s)) =
     (if responseSent s then responses (trace s)
      else responses (trace s) @
        [\<lparr>status = 500, success = False,
          message = Some (''FFmpeg conversion failed: '' @ err), downloadUrl = JUndefined\<rparr>])"
  using index_cleanup_quiet(1) [of p "disk s"]
  by (auto simp: on_error_def Let_def responses_append split: prod.splits)

lemma on_end_responses:
  "responses (trace (on_end p s)) =
     (if responseSent s then responses (trace s)
      else responses (trace s) @
        [\<lparr>status = 200, success = True,
          message = Some ''Conversion successful (file in temporary storage).'',
          downloadUrl = JNull\<rparr>])"
  by (simp add: on_end_def responses_append)

lemma on_progress_responses: "responses (trace (on_progress q s)) = responses (trace s)"
  by (simp add: on_progress_def responses_append split: option.splits)

lemma on_progress_flag: "responseSent (on_progress q s) = responseSent s"
  by (simp add: on_progress_def split: option.splits)

lemma on_error_flag: "responseSent (on_error p err stderr s)"
  by (simp add: on_error_def Let_def split: prod.splits)

lemma on_end_flag: "responseSent (on_end p s)"
  by (simp add: on_end_def)

lemma deliver_flag:
  "responseSent (deliver p e s) = (responseSent s \<or> is_terminal e)"
  by (cases e) (simp_all add: on_progress_flag on_error_flag on_end_flag)

lemma deliver_count:
  "length (responses (trace (deliver p e s))) =
     (if \<not> responseSent s \<and> is_terminal e then Suc (length (responses (trace s)))
      else length (responses (trace s)))"
  by (cases e) (simp_all add: on_progress_responses on_error_responses on_end_responses)

lemma run_events_flag:
  "responseSent (run_events p s evs) = (responseSent s \<or> list_ex is_terminal evs)"
  by (induction evs arbitrary: s) (auto simp: deliver_flag)

lemma run_events_count:
  "length (responses (trace (run_events p s evs))) =
     (if \<not> responseSent s \<and> list_ex is_terminal evs then Suc (length (responses (trace s)))
      else length (responses (trace s)))"
  by (induction evs arbitrary: s) (auto simp: deliver_flag deliver_count)

lemma index_handler_start:
  assumes "\<not> url_rejected v"
  shows "responseSent (index_handler now setup v fs0) = (setup \<noteq> SetupReturns)"
    and "length (responses (trace (index_handler now setup v fs0))) =
           (if setup = SetupReturns then 0 else 1)"
  using assms
  by (auto simp: index_handler_def on_setup_exception_def Let_def split: setup_result.splits)

lemma server_handler_count:
  assumes "\<not> url_rejected v"
  shows "length (responses (fst (server_handler dirname now execSync v fs0))) = 1"
proof -
  obtain r fs1 where ex: "execSync (command (str_of v) (server_outputPath dirname now)) fs0 = (r, fs1)"
    by (cases "execSync (command (str_of v) (server_outputPath dirname now)) fs0")
  show ?thesis
  proof (cases r)
    case ExecReturns
    with assms ex show ?thesis by (simp add: server_handler_def Let_def)
  next
    case (ExecThrows msg)
    obtain cl fs2 where cl: "server_cleanup (server_outputPath dirname now) fs1 = (cl, fs2)"
      by (cases "server_cleanup (server_outputPath dirname now) fs1")
    with server_cleanup_quiet(1) [of "server_outputPath dirname now" fs1]
    have "responses cl = []" by simp
    with assms ex ExecThrows cl show ?thesis
      by (simp add: server_handler_def Let_def headersSent_def responses_append)
  qed
qed

lemma deliver_executed: "executed (trace (deliver p e s)) = executed (trace s)"
proof (cases e)
  case (Progress q)
  then show ?thesis by (simp add: on_progress_def executed_append split: option.splits)
next
  case (Error err stderr)
  then show ?thesis
    using index_cleanup_quiet(2) [of p "disk s"]
    by (auto simp: on_error_def Let_def executed_append split: prod.splits)
next
  case End
  then show ?thesis by (simp add: on_end_def executed_append)
qed

lemma run_events_executed: "executed (trace (run_events p s evs)) = executed (trace s)"
  by (induction evs arbitrary: s) (simp_all add: deliver_executed)

lemma index_handler_executed: "executed (trace (index_handler now setup v fs0)) = []"
  by (simp add: index_handler_def on_setup_exception_def Let_def split: setup_result.splits)

lemma index_handler_returns:
  assumes "\<not> url_rejected v"
  shows "index_handler now SetupReturns v fs0 =
     \<lparr>responseSent = False,
      trace = [ConsoleLog [JStr (''[Backend] Received request for: '' @ str_of v)],
               ConsoleLog [JStr (''[Backend] Temporary output path: '' @ index_outputPath now)],
               Spawn (index_invocation (str_of v) (index_outputPath now))],
      disk = fs0\<rparr>"
  using assms by (simp add: index_handler_def Let_def)

lemma server_handler_split:
  assumes "\<not> url_rejected v"
  shows "\<exists>tr0 tr1. fst (server_handler dirname now execSync v fs0) =
           tr0 @ ExecSync (command (str_of v) (server_outputPath dirname now)) # tr1 \<and>
           responses tr0 = [] \<and> executed tr0 = [] \<and> executed tr1 = [] \<and>
           length (responses tr1) = 1"
proof -
  let ?p = "server_outputPath dirname now"
  let ?c = "command (str_of v) ?p"
  let ?tr0 = "[ConsoleLog [JStr (''[Backend] Received request for: '' @ str_of v)],
               ConsoleLog [JStr (''[Backend] Output path: '' @ ?p)],
               ConsoleLog [JStr ''[Backend] Using execSync (synchronous/blocking)...''],
               ConsoleLog [JStr (''[Backend] Executing command: '' @ ?c)]]"
  obtain r fs1 where ex: "execSync ?c fs0 = (r, fs1)" by (cases "execSync ?c fs0")
  show ?thesis
  proof (cases r)
    case ExecReturns
    with assms ex have "fst (server_handler dirname now execSync v fs0) = ?tr0 @ ExecSync ?c #
        [ConsoleLog [JStr (''[Backend] execSync finished successfully for: '' @ ?p)],
         Respond \<lparr>status = 200, success = True, message = None,
                  downloadUrl = JStr (publicDownloadUrl now)\<rparr>]"
      by (simp add: server_handler_def Let_def)
    then show ?thesis by (intro exI conjI) (assumption, simp_all)
  next
    case (ExecThrows msg)
    obtain cl fs2 where cl: "server_cleanup ?p fs1 = (cl, fs2)"
      by (cases "server_cleanup ?p fs1")
    with server_cleanup_quiet [of ?p fs1]
    have q: "responses cl = []" "executed cl = []" by simp_all
    with assms ex ExecThrows cl
    have "fst (server_handler dirname now execSync v fs0) = ?tr0 @ ExecSync ?c #
        ([ConsoleError [JStr (''[Backend] Error executing FFmpeg with execSync: '' @ msg)],
          ConsoleError [JStr ''[Backend] FFmpeg likely failed. Check output above for FFmpeg errors.'']] @ cl @
         [Respond \<lparr>status = 500, success = False,
                   message = Some ''FFmpeg conversion failed (execSync). Check backend logs.'',
                   downloadUrl = JUndefined\<rparr>])"
      by (simp add: server_handler_def Let_def headersSent_def responses_append)
    then show ?thesis using q
      by (intro exI conjI) (assumption, simp_all add: responses_append executed_append)
  qed
qed

lemma server_handler_success:
  assumes "\<not> url_rejected v"
    and "execSync (command (str_of v) (server_outputPath dirname now)) fs0 = (ExecReturns, fs1)"
  shows "server_handler dirname now execSync v fs0 =
     ([ConsoleLog [JStr (''[Backend] Received request for: '' @ str_of v)],
       ConsoleLog [JStr (''[Backend] Output path: '' @ server_outputPath dirname now)],
       ConsoleLog [JStr ''[Backend] Using execSync (synchronous/blocking)...''],
       ConsoleLog [JStr (''[Backend] Executing command: '' @
          command (str_of v) (server_outputPath dirname now))],
       ExecSync (command (str_of v) (server_outputPath dirname now)),
       ConsoleLog [JStr (''[Backend] execSync finished successfully for: '' @
          server_outputPath dirname now)],
       Respond \<lparr>status = 200, success = True, message = None,
                downloadUrl = JStr (publicDownloadUrl now)\<rparr>], fs1)"
  using assms by (simp add: server_handler_def Let_def)

lemma server_handler_failure:
  assumes "\<not> url_rejected v"
    and "execSync (command (str_of v) (server_outputPath dirname now)) fs0 = (ExecThrows msg, fs1)"
  shows "server_handler dirname now execSync v fs0 =
     ([ConsoleLog [JStr (''[Backend] Received request for: '' @ str_of v)],
       ConsoleLog [JStr (''[Backend] Output path: '' @ server_outputPath dirname now)],
       ConsoleLog [JStr ''[Backend] Using execSync (synchronous/blocking)...''],
       ConsoleLog [JStr (''[Backend] Executing command: '' @
          command (str_of v) (server_outputPath dirname now))],
       ExecSync (command (str_of v) (server_outputPath dirname now)),
       ConsoleError [JStr (''[Backend] Error executing FFmpeg with execSync: '' @ msg)],
       ConsoleError [JStr ''[Backend] FFmpeg likely failed. Check output above for FFmpeg errors.'']] @
      fst (server_cleanup (server_outputPath dirname now) fs1) @
      [Respond \<lparr>status = 500, success = False,
                message = Some ''FFmpeg conversion failed (execSync). Check backend logs.'',
                downloadUrl = JUndefined\<rparr>],
      snd (server_cleanup (server_outputPath dirname now) fs1))"
proof -
  obtain cl fs2 where cl: "server_cleanup (server_outputPath dirname now) fs1 = (cl, fs2)"
    by (cases "server_cleanup (server_outputPath dirname now) fs1")
  with server_cleanup_quiet(1) [of "server_outputPath dirname now" fs1]
  have "responses cl = []" by simp
  with assms cl show ?thesis
    by (simp add: server_handler_def Let_def headersSent_def responses_append)
qed

lemma server_cleanup_removes:
  "unlink_error f p = None \<Longrightarrow> \<not> existsSync (snd (server_cleanup p f)) p"
  by (auto simp: server_cleanup_def unlinkSync_def existsSync_def split: option.splits)

lemma index_cleanup_removes:
  "unlink_error f p = None \<Longrightarrow> \<not> existsSync (snd (index_cleanup p f)) p"
  by (auto simp: index_cleanup_def unlinkSync_def existsSync_def split: option.splits)

lemma server_cleanup_throws:
  "existsSync f p \<Longrightarrow> unlink_error f p = Some e \<Longrightarrow>
     server_cleanup p f = ([ConsoleError [JStr (''[Backend] Error deleting incomplete file: '' @ e)]], f)"
  by (simp add: server_cleanup_def unlinkSync_def)

lemma index_cleanup_throws:
  "existsSync f p \<Longrightarrow> unlink_error f p = Some e \<Longrightarrow>
     index_cleanup p f = ([ConsoleError [JStr (''Error deleting tmp file: '' @ e)]], f)"
  by (simp add: index_cleanup_def unlinkSync_def)

lemma on_error_unsent:
  "\<not> responseSent s \<Longrightarrow> on_error p err stderr s =
     \<lparr>responseSent = True,
      trace = trace s @
        [ConsoleError [JStr ''[Backend] FFmpeg error:'', JStr err],
         ConsoleError [JStr ''[Backend] FFmpeg stderr:'',
                       if js_truthy stderr then stderr else JStr ''Not available'']] @
        fst (index_cleanup p (disk s)) @
        [Respond \<lparr>status = 500, success = False,
                  message = Some (''FFmpeg conversion failed: '' @ err),
                  downloadUrl = JUndefined\<rparr>],
      disk = snd (index_cleanup p (disk s))\<rparr>"
  by (simp add: on_error_def Let_def split: prod.splits)

lemma basename_server_outputPath:
  "path_basename (server_outputPath dirname now) = outputFileName now"
  unfolding server_outputPath_def by (rule path_basename_join) (rule outputFileName_plain)+

lemma on_end_disk: "disk (on_end p s) = disk s"
  by (simp add: on_end_def)

lemma on_progress_disk: "disk (on_progress q s) = disk s"
  by (simp add: on_progress_def split: option.splits)

lemma run_events_disk:
  "\<forall>err stderr. Error err stderr \<notin> set evs \<Longrightarrow> disk (run_events p s evs) = disk s"
proof (induction evs arbitrary: s)
  case Nil
  then show ?case by simp
next
  case (Cons e evs)
  then have "disk (deliver p e s) = disk s"
    by (cases e) (auto simp: on_end_disk on_progress_disk)
  with Cons show ?case by simp
qed

lemma sh_dquoted_plain:
  "dq_plain u \<Longrightarrow> sh_dquoted x (u @ CHR 0x22 # rest) = sh_unquoted (Some (x @ u)) rest"
  by (induction u arbitrary: x) (auto simp: dq_plain_def)

lemma command_words_plain:
  assumes "dq_plain u" and "dq_plain p"
  shows "sh_words (command u p) =
     Some [''ffmpeg'', ''-y'', ''-protocol_whitelist'', ''file,http,https,tcp,tls,crypto'',
           ''-i'', u, ''-bsf:a'', ''aac_adtstoasc'', ''-c'', ''copy'', p]"
  using sh_dquoted_plain [OF assms(1)] sh_dquoted_plain [OF assms(2)]
  by (simp add: sh_words_def command_def dq_def protocol_whitelist_def sh_blank_def sh_meta_def)

lemma quoted_url_accepted: "\<not> url_rejected (JStr (''http://x'' @ dq @ '' -i '' @ dq @ ''/etc/passwd''))"
  by (simp add: url_rejected_def startsWith_def dq_def)

lemma server_handler_executed:
  assumes "\<not> url_rejected v"
  shows "executed (fst (server_handler dirname now execSync v fs0)) =
           [command (str_of v) (server_outputPath dirname now)]"
proof -
  from server_handler_split [OF assms, of dirname now execSync fs0]
  obtain tr0 tr1 where "fst (server_handler dirname now execSync v fs0) =
           tr0 @ ExecSync (command (str_of v) (server_outputPath dirname now)) # tr1"
    and "executed tr0 = []" and "executed tr1 = []" by blast
  then show ?thesis by (simp add: executed_append)
qed

lemma server_invocation_plain:
  assumes "\<not> url_rejected v" and "dq_plain (str_of v)"
    and "dq_plain (server_outputPath dirname now)"
  shows "map sh_words (executed (fst (server_handler dirname now execSync v fs0))) =
     [Some [''ffmpeg'', ''-y'', ''-protocol_whitelist'', ''file,http,https,tcp,tls,crypto'',
            ''-i'', str_of v, ''-bsf:a'', ''aac_adtstoasc'', ''-c'', ''copy'',
            server_outputPath dirname now]]"
  by (simp only: server_handler_executed [OF assms(1)] command_words_plain [OF assms(2,3)] list.map)

lemma index_invocation_exact:
  assumes "\<not> url_rejected v"
  shows "spawned (trace (index_handler now SetupReturns v fs0)) =
           [\<lparr>inv_input = str_of v, inv_timeout = 432000,
             inputOptions = [''-protocol_whitelist'', ''file,http,https,tcp,tls,crypto''],
             outputOptions = [''-bsf:a'', ''aac_adtstoasc'', ''-c'', ''copy''],
             inv_output = index_outputPath now\<rparr>]"
  by (simp add: index_handler_returns [OF assms] index_invocation_def protocol_whitelist_def)

lemma digit_char_inj: "a < 10 \<Longrightarrow> b < 10 \<Longrightarrow> digit_char a = digit_char b \<Longrightarrow> a = b"
proof -
  assume "a < 10" "b < 10" "digit_char a = digit_char b"
  moreover have "distinct ''0123456789''" by simp
  ultimately show "a = b"
    unfolding digit_char_def by (simp add: nth_eq_iff_index_eq)
qed

lemma decimal_inj: "decimal a = decimal b \<Longrightarrow> a = b"
proof (induction a arbitrary: b rule: decimal.induct)
  case (1 a)
  from "1.prems" have e: "(if 10 \<le> a then decimal (a div 10) else []) @ [digit_char (a mod 10)] =
      (if 10 \<le> b then decimal (b div 10) else []) @ [digit_char (b mod 10)]"
    by (subst (asm) decimal.simps, subst (asm) (2) decimal.simps) simp
  then have d: "digit_char (a mod 10) = digit_char (b mod 10)"
    and r: "(if 10 \<le> a then decimal (a div 10) else []) = (if 10 \<le> b then decimal (b div 10) else [])"
    by simp_all
  from d have m: "a mod 10 = b mod 10" by (intro digit_char_inj) simp_all
  have ne: "\<And>n. decimal n \<noteq> []" by (subst decimal.simps) simp
  have q: "a div 10 = b div 10"
  proof (cases "10 \<le> a")
    case True
    with r ne [of "a div 10"] have "10 \<le> b" by (auto split: if_splits)
    with r True "1.IH" show ?thesis by simp
  next
    case False
    with r ne [of "b div 10"] have "\<not> 10 \<le> b" by (auto split: if_splits)
    with False show ?thesis by simp
  qed
  from m q show ?case by (metis div_mult_mod_eq)
qed

lemma outputFileName_inj: "outputFileName a = outputFileName b \<longleftrightarrow> a = b"
  by (auto simp: outputFileName_def dest: decimal_inj)

lemma basename_index_outputPath:
  "path_basename (index_outputPath now) = outputFileName now"
  unfolding index_outputPath_def by (rule path_basename_join) (rule outputFileName_plain)+

lemma index_outputPath_inj: "index_outputPath a = index_outputPath b \<longleftrightarrow> a = b"
proof
  assume "index_outputPath a = index_outputPath b"
  then have "path_basename (index_outputPath a) = path_basename (index_outputPath b)"
    by (rule arg_cong)
  then have "outputFileName a = outputFileName b"
    by (simp only: basename_index_outputPath)
  then show "a = b" by (simp only: outputFileName_inj)
qed simp

lemma server_outputPath_inj:
  "server_outputPath dirname a = server_outputPath dirname b \<longleftrightarrow> a = b"
proof
  assume "server_outputPath dirname a = server_outputPath dirname b"
  then have "path_basename (server_outputPath dirname a) = path_basename (server_outputPath dirname b)"
    by (rule arg_cong)
  then have "outputFileName a = outputFileName b"
    by (simp only: basename_server_outputPath)
  then show "a = b" by (simp only: outputFileName_inj)
qed simp

subsection \<open>Concrete inputs\<close>

lemma server_path_example:
  "server_outputPath ''/app'' 1700000000000 = ''/app/public/downloads/converted_1700000000000.mp4''"
  by (simp add: server_outputPath_def publicDownloadsDir_def path_join_def path_normalize_def
      outputFileName_def decimal.simps digit_char_def)

lemma index_path_example:
  "index_outputPath 1700000000000 = ''/tmp/converted_1700000000000.mp4''"
  by (simp add: index_outputPath_def outputDir_def path_join_def path_normalize_def
      outputFileName_def decimal.simps digit_char_def)

lemma example_url_accepted: "\<not> url_rejected (JStr ''http://example.com/live.m3u8'')"
  by (simp add: url_rejected_def startsWith_def)

section \<open>The claims\<close>

subsection \<open>C2: what the validation accepts\<close>

text \<open>
  C2 says the validation accepts a value exactly when it is a well-formed absolute URL whose
  scheme is http or https. The guard of the code is weaker: it accepts the bare word
  \<^verbatim>\<open>http\<close>, which has no scheme at all, and \<^verbatim>\<open>httpx://example.com/live.m3u8\<close>, whose
  scheme is \<^verbatim>\<open>httpx\<close>.
\<close>

theorem validation_counterexample:
  "\<not> url_rejected (JStr ''http'') \<and> \<not> spec_http_scheme ''http'' \<and>
   \<not> url_rejected (JStr ''httpx://example.com/live.m3u8'') \<and>
   \<not> spec_http_scheme ''httpx://example.com/live.m3u8''"
  by (simp add: url_rejected_def startsWith_def spec_http_scheme_def url_scheme_def)

text \<open>
  C2, amended: the validation accepts \<^verbatim>\<open>req.body.url\<close> if and only if it is a string
  that begins with the four characters \<^verbatim>\<open>http\<close>; every other value (missing, not a
  string, empty, another prefix) is rejected.
\<close>

theorem validation_accepts_http_prefix:
  "\<not> url_rejected v \<longleftrightarrow> (\<exists>s. v = JStr s \<and> prefix ''http'' s)"
  by (simp add: url_accepted_iff startsWith_prefix)

theorem validation_accepts_http_prefix_witness:
  "\<not> url_rejected (JStr ''http://example.com/live.m3u8'') \<and> url_rejected (JStr ''not-a-url'') \<and>
   url_rejected (JStr []) \<and> url_rejected JUndefined \<and> url_rejected (JNum 5)"
  using validation_accepts_http_prefix [of "JStr ''http://example.com/live.m3u8''"]
    validation_accepts_http_prefix [of "JStr ''not-a-url''"]
    validation_accepts_http_prefix [of "JStr []"]
    validation_accepts_http_prefix [of JUndefined]
    validation_accepts_http_prefix [of "JNum 5"]
  by (simp add: prefix_def)

subsection \<open>C6: a rejected submission starts nothing\<close>

text \<open>
  C6: when the value fails the validation, both handlers answer 400 at once, in the
  handler's own run: that response is everything they do besides one log line. No
  conversion process is started (no \<open>ExecSync\<close>, no \<open>Spawn\<close>), the file system is as it
  was, and the code keeps no job record that could have been created.
\<close>

theorem invalid_rejected_synchronously:
  assumes "url_rejected v"
  shows "fst (server_handler dirname now execSync v fs0) =
           [ConsoleLog [JStr ''[Backend] Invalid M3U8 URL received:'', v],
            Respond \<lparr>status = 400, success = False,
                     message = Some ''Invalid or missing M3U8 URL in request body'',
                     downloadUrl = JUndefined\<rparr>] \<and>
         executed (fst (server_handler dirname now execSync v fs0)) = [] \<and>
         snd (server_handler dirname now execSync v fs0) = fs0 \<and>
         trace (index_handler now setup v fs0) =
           [ConsoleLog [JStr ''[Backend] Invalid M3U8 URL received:'', v],
            Respond \<lparr>status = 400, success = False,
                     message = Some ''Invalid or missing M3U8 URL'',
                     downloadUrl = JUndefined\<rparr>] \<and>
         spawned (trace (index_handler now setup v fs0)) = [] \<and>
         disk (index_handler now setup v fs0) = fs0"
  using assms by (simp add: server_handler_def index_handler_def)

theorem invalid_rejected_synchronously_witness:
  "url_rejected (JStr ''not-a-url'') \<and>
   responses (fst (server_handler ''/app'' 1700000000000 (\<lambda>c f. (ExecReturns, f)) (JStr ''not-a-url'')
      \<lparr>files = Map.empty, unlink_error = Map.empty\<rparr>)) =
     [\<lparr>status = 400, success = False,
       message = Some ''Invalid or missing M3U8 URL in request body'', downloadUrl = JUndefined\<rparr>] \<and>
   executed (fst (server_handler ''/app'' 1700000000000 (\<lambda>c f. (ExecReturns, f)) (JStr ''not-a-url'')
      \<lparr>files = Map.empty, unlink_error = Map.empty\<rparr>)) = [] \<and>
   spawned (trace (index_handler 1700000000000 SetupReturns (JStr ''not-a-url'')
      \<lparr>files = Map.empty, unlink_error = Map.empty\<rparr>)) = []"
proof -
  have r: "url_rejected (JStr ''not-a-url'')"
    by (simp add: url_rejected_def startsWith_def)
  show ?thesis
    using r invalid_rejected_synchronously [OF r, of "''/app''" 1700000000000 "\<lambda>c f. (ExecReturns, f)"
        "\<lparr>files = Map.empty, unlink_error = Map.empty\<rparr>" SetupReturns]
    by simp
qed

subsection \<open>C3: one response per accepted request\<close>

text \<open>
  C3: an accepted request is answered exactly once. In \<^verbatim>\<open>src/server.js\<close> the handler
  writes one response whether \<^verbatim>\<open>execSync\<close> returns or throws. In \<^verbatim>\<open>src/index.js\<close>
  the flag \<^verbatim>\<open>responseSent\<close> lets through only the first of the setup exception, the
  \<^verbatim>\<open>error\<close> callback and the \<^verbatim>\<open>end\<close> callback: whatever events arrive, in whatever
  order and number, there is never more than one response, and there is exactly one as soon
  as the setup has thrown or one \<^verbatim>\<open>error\<close> or \<^verbatim>\<open>end\<close> event has arrived, that
  is, once the conversion has come to its end.
\<close>

theorem exactly_one_response:
  assumes "\<not> url_rejected v"
  shows "length (responses (fst (server_handler dirname now execSync v fs0))) = 1 \<and>
         length (responses (trace (run_events (index_outputPath now)
            (index_handler now setup v fs0) evs))) \<le> 1 \<and>
         (setup \<noteq> SetupReturns \<or> list_ex is_terminal evs \<longrightarrow>
           length (responses (trace (run_events (index_outputPath now)
             (index_handler now setup v fs0) evs))) = 1)"
  using assms server_handler_count [OF assms]
  by (auto simp: run_events_count index_handler_start)

theorem exactly_one_response_witness:
  "\<not> url_rejected (JStr ''http://example.com/live.m3u8'') \<and>
   list_ex is_terminal [Progress (Some 30), Error ''ffmpeg exited with code 1'' JUndefined, End,
      Error ''again'' (JStr ''late'')] \<and>
   length (responses (fst (server_handler ''/app'' 1700000000000 (\<lambda>c f. (ExecThrows ''Command failed'', f))
      (JStr ''http://example.com/live.m3u8'') \<lparr>files = Map.empty, unlink_error = Map.empty\<rparr>))) = 1 \<and>
   length (responses (trace (run_events (index_outputPath 1700000000000)
      (index_handler 1700000000000 SetupReturns (JStr ''http://example.com/live.m3u8'')
         \<lparr>files = Map.empty, unlink_error = Map.empty\<rparr>)
      [Progress (Some 30), Error ''ffmpeg exited with code 1'' JUndefined, End,
       Error ''again'' (JStr ''late'')]))) = 1"
proof -
  have a: "\<not> url_rejected (JStr ''http://example.com/live.m3u8'')"
    by (simp add: url_rejected_def startsWith_def)
  show ?thesis
    using a exactly_one_response [OF a, of "''/app''" 1700000000000
        "\<lambda>c f. (ExecThrows ''Command failed'', f)"
        "\<lparr>files = Map.empty, unlink_error = Map.empty\<rparr>" SetupReturns
        "[Progress (Some 30), Error ''ffmpeg exited with code 1'' JUndefined, End,
          Error ''again'' (JStr ''late'')]"]
    by simp
qed

subsection \<open>C1: which variant waits for the process\<close>

text \<open>
  C1 says that the request-handling path never waits synchronously for the conversion
  process and answers before the process exits. \<^verbatim>\<open>src/server.js\<close> does the opposite, as
  its header warns: before it writes any response the handler has run \<^verbatim>\<open>execSync\<close>,
  which suspends Node.js until the process has exited.
\<close>

theorem blocking_counterexample:
  "executed (takeWhile (\<lambda>e. responses [e] = [])
      (fst (server_handler ''/app'' 1700000000000 (\<lambda>c f. (ExecReturns, f))
         (JStr ''http://example.com/live.m3u8'') \<lparr>files = Map.empty, unlink_error = Map.empty\<rparr>))) =
    [command ''http://example.com/live.m3u8'' ''/app/public/downloads/converted_1700000000000.mp4'']"
  by (simp add: server_handler_def example_url_accepted Let_def server_path_example)

text \<open>
  C1, amended: only the event-driven variant is non-blocking. For every accepted
  submission the handler of \<^verbatim>\<open>src/index.js\<close> never calls a blocking wait, neither in its
  own run nor in any callback; when the setup succeeds it has started the process and
  returns without having written a response, which only the \<^verbatim>\<open>error\<close> or \<^verbatim>\<open>end\<close>
  callback writes later. The handler of \<^verbatim>\<open>src/server.js\<close> calls \<^verbatim>\<open>execSync\<close> and
  writes its one response only after that call: nothing is answered before the wait.
\<close>

theorem nonblocking_only_event_driven:
  assumes "\<not> url_rejected v"
  shows "executed (trace (run_events (index_outputPath now) (index_handler now setup v fs0) evs)) = [] \<and>
         responses (trace (index_handler now SetupReturns v fs0)) = [] \<and>
         spawned (trace (index_handler now SetupReturns v fs0)) =
           [index_invocation (str_of v) (index_outputPath now)] \<and>
         (\<exists>tr0 tr1. fst (server_handler dirname now execSync v fs0) =
             tr0 @ ExecSync (command (str_of v) (server_outputPath dirname now)) # tr1 \<and>
             responses tr0 = [] \<and> length (responses tr1) = 1)"
proof -
  from server_handler_split [OF assms, of dirname now execSync fs0]
  have "\<exists>tr0 tr1. fst (server_handler dirname now execSync v fs0) =
             tr0 @ ExecSync (command (str_of v) (server_outputPath dirname now)) # tr1 \<and>
             responses tr0 = [] \<and> length (responses tr1) = 1"
    by blast
  then show ?thesis
    by (simp add: run_events_executed index_handler_executed index_handler_returns [OF assms])
qed

theorem nonblocking_only_event_driven_witness:
  "\<not> url_rejected (JStr ''http://example.com/live.m3u8'') \<and>
   executed (trace (run_events (index_outputPath 1700000000000)
      (index_handler 1700000000000 SetupReturns (JStr ''http://example.com/live.m3u8'')
         \<lparr>files = Map.empty, unlink_error = Map.empty\<rparr>) [Progress (Some 30), End])) = [] \<and>
   responses (trace (index_handler 1700000000000 SetupReturns (JStr ''http://example.com/live.m3u8'')
      \<lparr>files = Map.empty, unlink_error = Map.empty\<rparr>)) = [] \<and>
   (\<exists>tr0 tr1. fst (server_handler ''/app'' 1700000000000 (\<lambda>c f. (ExecReturns, f))
        (JStr ''http://example.com/live.m3u8'') \<lparr>files = Map.empty, unlink_error = Map.empty\<rparr>) =
      tr0 @ ExecSync (command (str_of (JStr ''http://example.com/live.m3u8''))
                        (server_outputPath ''/app'' 1700000000000)) # tr1 \<and>
      responses tr0 = [] \<and> length (responses tr1) = 1)"
proof -
  note w = nonblocking_only_event_driven [OF example_url_accepted, of 1700000000000 SetupReturns
      "\<lparr>files = Map.empty, unlink_error = Map.empty\<rparr>" "[Progress (Some 30), End]" "''/app''"
      "\<lambda>c f. (ExecReturns, f)"]
  from w show ?thesis using example_url_accepted by blast
qed

subsection \<open>C4: the partial file after a failure\<close>

text \<open>
  C4 says that after every failed conversion no file remains at the output path. The
  deletion is an attempt: when \<^verbatim>\<open>fs.unlinkSync\<close> throws, the handler logs the exception and
  goes on, so the partial file is still there when the failure is reported. Here
  \<^verbatim>\<open>execSync\<close> fails leaving a partial file that cannot be unlinked.
\<close>

theorem failed_cleanup_counterexample:
  "existsSync (snd (server_handler ''/app'' 1700000000000
      (\<lambda>c f. (ExecThrows ''Command failed'',
         f\<lparr>files := (files f)(''/app/public/downloads/converted_1700000000000.mp4'' \<mapsto> ''partial''),
           unlink_error := (unlink_error f)(''/app/public/downloads/converted_1700000000000.mp4'' \<mapsto>
              ''EPERM: operation not permitted, unlink'')\<rparr>))
      (JStr ''http://example.com/live.m3u8'') \<lparr>files = Map.empty, unlink_error = Map.empty\<rparr>))
     ''/app/public/downloads/converted_1700000000000.mp4'' \<and>
   map status (responses (fst (server_handler ''/app'' 1700000000000
      (\<lambda>c f. (ExecThrows ''Command failed'',
         f\<lparr>files := (files f)(''/app/public/downloads/converted_1700000000000.mp4'' \<mapsto> ''partial''),
           unlink_error := (unlink_error f)(''/app/public/downloads/converted_1700000000000.mp4'' \<mapsto>
              ''EPERM: operation not permitted, unlink'')\<rparr>))
      (JStr ''http://example.com/live.m3u8'') \<lparr>files = Map.empty, unlink_error = Map.empty\<rparr>))) = [500]"
  by (simp add: server_handler_def example_url_accepted Let_def server_path_example
      server_cleanup_def existsSync_def unlinkSync_def headersSent_def)

text \<open>
  C4, amended: when the conversion fails through the process (\<^verbatim>\<open>execSync\<close> throws in
  \<^verbatim>\<open>src/server.js\<close>; the \<^verbatim>\<open>error\<close> callback runs in \<^verbatim>\<open>src/index.js\<close> before any
  response was sent) and deleting the output path does not throw, then no file is left at
  the output path when the failure response is sent.
\<close>

theorem failure_cleanup_when_unlink_succeeds:
  "(\<not> url_rejected v \<and>
    execSync (command (str_of v) (server_outputPath dirname now)) fs0 = (ExecThrows msg, fs1) \<and>
    unlink_error fs1 (server_outputPath dirname now) = None \<longrightarrow>
      \<not> existsSync (snd (server_handler dirname now execSync v fs0)) (server_outputPath dirname now) \<and>
      responses (fst (server_handler dirname now execSync v fs0)) =
        [\<lparr>status = 500, success = False,
          message = Some ''FFmpeg conversion failed (execSync). Check backend logs.'',
          downloadUrl = JUndefined\<rparr>]) \<and>
   (\<not> responseSent s \<and> unlink_error (disk s) p = None \<longrightarrow>
      \<not> existsSync (disk (on_error p err stderr s)) p \<and>
      responses (trace (on_error p err stderr s)) = responses (trace s) @
        [\<lparr>status = 500, success = False,
          message = Some (''FFmpeg conversion failed: '' @ err), downloadUrl = JUndefined\<rparr>])"
proof (intro conjI impI)
  assume a: "\<not> url_rejected v \<and>
    execSync (command (str_of v) (server_outputPath dirname now)) fs0 = (ExecThrows msg, fs1) \<and>
    unlink_error fs1 (server_outputPath dirname now) = None"
  then have h: "server_handler dirname now execSync v fs0 = 
     ([ConsoleLog [JStr (''[Backend] Received request for: '' @ str_of v)],
       ConsoleLog [JStr (''[Backend] Output path: '' @ server_outputPath dirname now)],
       ConsoleLog [JStr ''[Backend] Using execSync (synchronous/blocking)...''],
       ConsoleLog [JStr (''[Backend] Executing command: '' @
          command (str_of v) (server_outputPath dirname now))],
       ExecSync (command (str_of v) (server_outputPath dirname now)),
       ConsoleError [JStr (''[Backend] Error executing FFmpeg with execSync: '' @ msg)],
       ConsoleError [JStr ''[Backend] FFmpeg likely failed. Check output above for FFmpeg errors.'']] @
      fst (server_cleanup (server_outputPath dirname now) fs1) @
      [Respond \<lparr>status = 500, success = False,
                message = Some ''FFmpeg conversion failed (execSync). Check backend logs.'',
                downloadUrl = JUndefined\<rparr>],
      snd (server_cleanup (server_outputPath dirname now) fs1))"
    using server_handler_failure by blast
  from a show "\<not> existsSync (snd (server_handler dirname now execSync v fs0)) (server_outputPath dirname now)"
    by (simp add: h server_cleanup_removes)
  show "responses (fst (server_handler dirname now execSync v fs0)) =
        [\<lparr>status = 500, success = False,
          message = Some ''FFmpeg conversion failed (execSync). Check backend logs.'',
          downloadUrl = JUndefined\<rparr>]"
    by (simp add: h responses_append server_cleanup_quiet)
next
  assume b: "\<not> responseSent s \<and> unlink_error (disk s) p = None"
  then show "\<not> existsSync (disk (on_error p err stderr s)) p"
    by (simp add: on_error_unsent index_cleanup_removes)
  from b show "responses (trace (on_error p err stderr s)) = responses (trace s) @
        [\<lparr>status = 500, success = False,
          message = Some (''FFmpeg conversion failed: '' @ err), downloadUrl = JUndefined\<rparr>]"
    by (simp add: on_error_responses)
qed

theorem failure_cleanup_when_unlink_succeeds_witness:
  "\<not> url_rejected (JStr ''http://example.com/live.m3u8'') \<and>
   existsSync \<lparr>files = [''/app/public/downloads/converted_1700000000000.mp4'' \<mapsto> ''partial''],
               unlink_error = Map.empty\<rparr> ''/app/public/downloads/converted_1700000000000.mp4'' \<and>
   \<not> existsSync (snd (server_handler ''/app'' 1700000000000
      (\<lambda>c f. (ExecThrows ''Command failed'',
         f\<lparr>files := (files f)(''/app/public/downloads/converted_1700000000000.mp4'' \<mapsto> ''partial'')\<rparr>))
      (JStr ''http://example.com/live.m3u8'') \<lparr>files = Map.empty, unlink_error = Map.empty\<rparr>))
     ''/app/public/downloads/converted_1700000000000.mp4'' \<and>
   \<not> existsSync (disk (on_error ''/tmp/converted_1700000000000.mp4'' ''ffmpeg exited with code 1'' JUndefined
      \<lparr>responseSent = False, trace = [],
       disk = \<lparr>files = [''/tmp/converted_1700000000000.mp4'' \<mapsto> ''partial''],
               unlink_error = Map.empty\<rparr>\<rparr>))
     ''/tmp/converted_1700000000000.mp4''"
proof -
  note w = failure_cleanup_when_unlink_succeeds
    [where v = "JStr ''http://example.com/live.m3u8''" and dirname = "''/app''"
       and now = 1700000000000 and msg = "''Command failed''"
       and execSync = "\<lambda>c f. (ExecThrows ''Command failed'',
         f\<lparr>files := (files f)(''/app/public/downloads/converted_1700000000000.mp4'' \<mapsto> ''partial'')\<rparr>)"
       and ?fs0.0 = "\<lparr>files = Map.empty, unlink_error = Map.empty\<rparr>"
       and ?fs1.0 = "\<lparr>files = [''/app/public/downloads/converted_1700000000000.mp4'' \<mapsto> ''partial''],
               unlink_error = Map.empty\<rparr>"
       and s = "\<lparr>responseSent = False, trace = [],
       disk = \<lparr>files = [''/tmp/converted_1700000000000.mp4'' \<mapsto> ''partial''],
               unlink_error = Map.empty\<rparr>\<rparr>"
       and p = "''/tmp/converted_1700000000000.mp4''"
       and err = "''ffmpeg exited with code 1''" and stderr = JUndefined]
  from w show ?thesis
    by (simp add: example_url_accepted server_path_example existsSync_def)
qed

subsection \<open>C7: a failing deletion does not change the outcome\<close>

text \<open>
  C7: when the partial file exists and \<^verbatim>\<open>fs.unlinkSync\<close> throws, the exception is caught
  and logged with \<^verbatim>\<open>console.error\<close>, the file system is left as it was, and the handler
  still sends its failure response: status 500 with the message it sends for every failed
  conversion, whatever the file system held (\<open>fs'\<close> is any other file system).
\<close>

theorem cleanup_error_swallowed:
  "(\<not> url_rejected v \<and>
    execSync (command (str_of v) (server_outputPath dirname now)) fs0 = (ExecThrows msg, fs1) \<and>
    existsSync fs1 (server_outputPath dirname now) \<and>
    unlink_error fs1 (server_outputPath dirname now) = Some e \<longrightarrow>
      ConsoleError [JStr (''[Backend] Error deleting incomplete file: '' @ e)]
        \<in> set (fst (server_handler dirname now execSync v fs0)) \<and>
      responses (fst (server_handler dirname now execSync v fs0)) =
        [\<lparr>status = 500, success = False,
          message = Some ''FFmpeg conversion failed (execSync). Check backend logs.'',
          downloadUrl = JUndefined\<rparr>] \<and>
      snd (server_handler dirname now execSync v fs0) = fs1) \<and>
   (\<not> responseSent s \<and> existsSync (disk s) p \<and> unlink_error (disk s) p = Some e \<longrightarrow>
      trace (on_error p err stderr s) = trace s @
        [ConsoleError [JStr ''[Backend] FFmpeg error:'', JStr err],
         ConsoleError [JStr ''[Backend] FFmpeg stderr:'',
                       if js_truthy stderr then stderr else JStr ''Not available''],
         ConsoleError [JStr (''Error deleting tmp file: '' @ e)],
         Respond \<lparr>status = 500, success = False,
                  message = Some (''FFmpeg conversion failed: '' @ err),
                  downloadUrl = JUndefined\<rparr>] \<and>
      disk (on_error p err stderr s) = disk s \<and>
      responses (trace (on_error p err stderr s)) =
        responses (trace (on_error p err stderr (s\<lparr>disk := fs'\<rparr>))))"
proof (intro conjI impI)
  assume a: "\<not> url_rejected v \<and>
    execSync (command (str_of v) (server_outputPath dirname now)) fs0 = (ExecThrows msg, fs1) \<and>
    existsSync fs1 (server_outputPath dirname now) \<and>
    unlink_error fs1 (server_outputPath dirname now) = Some e"
  then have c: "server_cleanup (server_outputPath dirname now) fs1 =
      ([ConsoleError [JStr (''[Backend] Error deleting incomplete file: '' @ e)]], fs1)"
    by (simp add: server_cleanup_throws)
  from a have h: "\<not> url_rejected v"
    "execSync (command (str_of v) (server_outputPath dirname now)) fs0 = (ExecThrows msg, fs1)"
    by simp_all
  show "ConsoleError [JStr (''[Backend] Error deleting incomplete file: '' @ e)]
        \<in> set (fst (server_handler dirname now execSync v fs0))"
    by (simp add: server_handler_failure [where execSync = execSync, OF h] c)
  show "responses (fst (server_handler dirname now execSync v fs0)) =
        [\<lparr>status = 500, success = False,
          message = Some ''FFmpeg conversion failed (execSync). Check backend logs.'',
          downloadUrl = JUndefined\<rparr>]"
    by (simp add: server_handler_failure [where execSync = execSync, OF h] c)
  show "snd (server_handler dirname now execSync v fs0) = fs1"
    by (simp add: server_handler_failure [where execSync = execSync, OF h] c)
next
  assume b: "\<not> responseSent s \<and> existsSync (disk s) p \<and> unlink_error (disk s) p = Some e"
  then have c: "index_cleanup p (disk s) = ([ConsoleError [JStr (''Error deleting tmp file: '' @ e)]], disk s)"
    by (simp add: index_cleanup_throws)
  from b show "trace (on_error p err stderr s) = trace s @
        [ConsoleError [JStr ''[Backend] FFmpeg error:'', JStr err],
         ConsoleError [JStr ''[Backend] FFmpeg stderr:'',
                       if js_truthy stderr then stderr else JStr ''Not available''],
         ConsoleError [JStr (''Error deleting tmp file: '' @ e)],
         Respond \<lparr>status = 500, success = False,
                  message = Some (''FFmpeg conversion failed: '' @ err),
                  downloadUrl = JUndefined\<rparr>]"
    by (simp add: on_error_unsent c)
  from b show "disk (on_error p err stderr s) = disk s"
    by (simp add: on_error_unsent c)
  show "responses (trace (on_error p err stderr s)) =
        responses (trace (on_error p err stderr (s\<lparr>disk := fs'\<rparr>)))"
    by (simp add: on_error_responses)
qed

theorem cleanup_error_swallowed_witness:
  "\<not> url_rejected (JStr ''http://example.com/live.m3u8'') \<and>
   ConsoleError [JStr ''[Backend] Error deleting incomplete file: EPERM: operation not permitted, unlink'']
     \<in> set (fst (server_handler ''/app'' 1700000000000
      (\<lambda>c f. (ExecThrows ''Command failed'',
         f\<lparr>files := (files f)(''/app/public/downloads/converted_1700000000000.mp4'' \<mapsto> ''partial''),
           unlink_error := (unlink_error f)(''/app/public/downloads/converted_1700000000000.mp4'' \<mapsto>
              ''EPERM: operation not permitted, unlink'')\<rparr>))
      (JStr ''http://example.com/live.m3u8'') \<lparr>files = Map.empty, unlink_error = Map.empty\<rparr>)) \<and>
   map status (responses (fst (server_handler ''/app'' 1700000000000
      (\<lambda>c f. (ExecThrows ''Command failed'',
         f\<lparr>files := (files f)(''/app/public/downloads/converted_1700000000000.mp4'' \<mapsto> ''partial''),
           unlink_error := (unlink_error f)(''/app/public/downloads/converted_1700000000000.mp4'' \<mapsto>
              ''EPERM: operation not permitted, unlink'')\<rparr>))
      (JStr ''http://example.com/live.m3u8'') \<lparr>files = Map.empty, unlink_error = Map.empty\<rparr>))) = [500] \<and>
   map message (responses (trace (on_error ''/tmp/converted_1700000000000.mp4'' ''ffmpeg exited with code 1'' JUndefined
      \<lparr>responseSent = False, trace = [],
       disk = \<lparr>files = [''/tmp/converted_1700000000000.mp4'' \<mapsto> ''partial''],
               unlink_error = [''/tmp/converted_1700000000000.mp4'' \<mapsto> ''EBUSY: resource busy or locked, unlink'']\<rparr>\<rparr>))) =
     [Some ''FFmpeg conversion failed: ffmpeg exited with code 1'']"
proof -
  note w = cleanup_error_swallowed
    [where v = "JStr ''http://example.com/live.m3u8''" and dirname = "''/app''"
       and now = 1700000000000 and msg = "''Command failed''"
       and execSync = "\<lambda>c f. (ExecThrows ''Command failed'',
         f\<lparr>files := (files f)(''/app/public/downloads/converted_1700000000000.mp4'' \<mapsto> ''partial''),
           unlink_error := (unlink_error f)(''/app/public/downloads/converted_1700000000000.mp4'' \<mapsto>
              ''EPERM: operation not permitted, unlink'')\<rparr>)"
       and ?fs0.0 = "\<lparr>files = Map.empty, unlink_error = Map.empty\<rparr>"
       and ?fs1.0 = "\<lparr>files = [''/app/public/downloads/converted_1700000000000.mp4'' \<mapsto> ''partial''],
               unlink_error = [''/app/public/downloads/converted_1700000000000.mp4'' \<mapsto>
              ''EPERM: operation not permitted, unlink'']\<rparr>"
       and e = "''EPERM: operation not permitted, unlink''"]
  note w2 = cleanup_error_swallowed
    [where s = "\<lparr>responseSent = False, trace = [],
       disk = \<lparr>files = [''/tmp/converted_1700000000000.mp4'' \<mapsto> ''partial''],
               unlink_error = [''/tmp/converted_1700000000000.mp4'' \<mapsto> ''EBUSY: resource busy or locked, unlink'']\<rparr>\<rparr>"
       and p = "''/tmp/converted_1700000000000.mp4''"
       and e = "''EBUSY: resource busy or locked, unlink''"
       and err = "''ffmpeg exited with code 1''" and stderr = JUndefined]
  from w w2 show ?thesis
    by (simp add: example_url_accepted server_path_example existsSync_def)
qed

subsection \<open>C9: the download reference of a success\<close>

text \<open>
  C9 says that every successful conversion reports a non-null artifact reference. The
  \<^verbatim>\<open>end\<close> callback of \<^verbatim>\<open>src/index.js\<close> answers \<^verbatim>\<open>downloadUrl: null\<close>: a file under
  \<^verbatim>\<open>/tmp\<close> cannot be served, and the upload that would give a URL is left as a comment.
\<close>

theorem null_download_counterexample:
  "map success (responses (trace (run_events (index_outputPath 1700000000000)
      (index_handler 1700000000000 SetupReturns (JStr ''http://example.com/live.m3u8'')
         \<lparr>files = Map.empty, unlink_error = Map.empty\<rparr>)
      [Progress (Some 30), Progress (Some 70), End]))) = [True] \<and>
   map downloadUrl (responses (trace (run_events (index_outputPath 1700000000000)
      (index_handler 1700000000000 SetupReturns (JStr ''http://example.com/live.m3u8'')
         \<lparr>files = Map.empty, unlink_error = Map.empty\<rparr>)
      [Progress (Some 30), Progress (Some 70), End]))) = [JNull]"
  by (simp add: index_handler_returns [OF example_url_accepted] on_progress_responses
      on_progress_flag on_end_responses)

text \<open>
  C9, amended: in \<^verbatim>\<open>src/server.js\<close> the response of every successful conversion carries
  the download URL \<^verbatim>\<open>/downloads/converted_<Date.now()>.mp4\<close>, which is not null; in
  \<^verbatim>\<open>src/index.js\<close> the success response carries \<^verbatim>\<open>downloadUrl: null\<close>.
\<close>

theorem success_download_reference:
  "(\<not> url_rejected v \<and>
    fst (execSync (command (str_of v) (server_outputPath dirname now)) fs0) = ExecReturns \<longrightarrow>
      responses (fst (server_handler dirname now execSync v fs0)) =
        [\<lparr>status = 200, success = True, message = None,
          downloadUrl = JStr (''/downloads/converted_'' @ decimal now @ ''.mp4'')\<rparr>]) \<and>
   (\<not> responseSent s \<longrightarrow>
      responses (trace (on_end p s)) = responses (trace s) @
        [\<lparr>status = 200, success = True,
          message = Some ''Conversion successful (file in temporary storage).'',
          downloadUrl = JNull\<rparr>])"
proof (intro conjI impI)
  assume a: "\<not> url_rejected v \<and>
    fst (execSync (command (str_of v) (server_outputPath dirname now)) fs0) = ExecReturns"
  then have h: "\<not> url_rejected v"
    "execSync (command (str_of v) (server_outputPath dirname now)) fs0 =
       (ExecReturns, snd (execSync (command (str_of v) (server_outputPath dirname now)) fs0))"
    by (simp_all add: prod_eq_iff)
  show "responses (fst (server_handler dirname now execSync v fs0)) =
        [\<lparr>status = 200, success = True, message = None,
          downloadUrl = JStr (''/downloads/converted_'' @ decimal now @ ''.mp4'')\<rparr>]"
    by (simp add: server_handler_success [where execSync = execSync, OF h]
        publicDownloadUrl_def outputFileName_def)
next
  assume "\<not> responseSent s"
  then show "responses (trace (on_end p s)) = responses (trace s) @
        [\<lparr>status = 200, success = True,
          message = Some ''Conversion successful (file in temporary storage).'',
          downloadUrl = JNull\<rparr>]"
    by (simp add: on_end_responses)
qed

theorem success_download_reference_witness:
  "\<not> url_rejected (JStr ''http://example.com/live.m3u8'') \<and>
   map downloadUrl (responses (fst (server_handler ''/app'' 1700000000000 (\<lambda>c f. (ExecReturns, f))
      (JStr ''http://example.com/live.m3u8'') \<lparr>files = Map.empty, unlink_error = Map.empty\<rparr>))) =
     [JStr ''/downloads/converted_1700000000000.mp4''] \<and>
   map downloadUrl (responses (trace (on_end ''/tmp/converted_1700000000000.mp4''
      \<lparr>responseSent = False, trace = [],
       disk = \<lparr>files = Map.empty, unlink_error = Map.empty\<rparr>\<rparr>))) = [JNull]"
proof -
  note w = success_download_reference
    [where v = "JStr ''http://example.com/live.m3u8''" and dirname = "''/app''"
       and now = 1700000000000 and execSync = "\<lambda>c f. (ExecReturns, f)"
       and ?fs0.0 = "\<lparr>files = Map.empty, unlink_error = Map.empty\<rparr>"
       and s = "\<lparr>responseSent = False, trace = [],
       disk = \<lparr>files = Map.empty, unlink_error = Map.empty\<rparr>\<rparr>"
       and p = "''/tmp/converted_1700000000000.mp4''"]
  have d: "decimal 1700000000000 = ''1700000000000''"
    by (simp add: decimal.simps digit_char_def)
  from w show ?thesis
    by (simp add: example_url_accepted d)
qed

subsection \<open>C10: a success deletes nothing\<close>

text \<open>
  C10: on the success path the handlers do not touch the file system. In
  \<^verbatim>\<open>src/server.js\<close> the file system after the handler is the one \<^verbatim>\<open>execSync\<close> left, and
  the download URL is \<^verbatim>\<open>/downloads/\<close> followed by the base name of the output path. In
  \<^verbatim>\<open>src/index.js\<close> the \<^verbatim>\<open>end\<close> callback leaves the file system as it is, and so does any
  run of callbacks in which no \<^verbatim>\<open>error\<close> event occurs: only the failure path deletes.
\<close>

theorem success_keeps_file:
  "(\<not> url_rejected v \<and>
    execSync (command (str_of v) (server_outputPath dirname now)) fs0 = (ExecReturns, fs1) \<longrightarrow>
      snd (server_handler dirname now execSync v fs0) = fs1 \<and>
      map downloadUrl (responses (fst (server_handler dirname now execSync v fs0))) =
        [JStr (''/downloads/'' @ path_basename (server_outputPath dirname now))]) \<and>
   disk (on_end p s) = disk s \<and>
   ((\<forall>err stderr. Error err stderr \<notin> set evs) \<longrightarrow> disk (run_events p s evs) = disk s)"
proof (intro conjI impI)
  assume a: "\<not> url_rejected v \<and>
    execSync (command (str_of v) (server_outputPath dirname now)) fs0 = (ExecReturns, fs1)"
  then have h: "\<not> url_rejected v"
    "execSync (command (str_of v) (server_outputPath dirname now)) fs0 = (ExecReturns, fs1)"
    by simp_all
  show "snd (server_handler dirname now execSync v fs0) = fs1"
    by (simp add: server_handler_success [where execSync = execSync, OF h])
  show "map downloadUrl (responses (fst (server_handler dirname now execSync v fs0))) =
        [JStr (''/downloads/'' @ path_basename (server_outputPath dirname now))]"
    by (simp add: server_handler_success [where execSync = execSync, OF h]
        basename_server_outputPath publicDownloadUrl_def)
next
  show "disk (on_end p s) = disk s" by (rule on_end_disk)
next
  assume "\<forall>err stderr. Error err stderr \<notin> set evs"
  then show "disk (run_events p s evs) = disk s" by (rule run_events_disk)
qed

theorem success_keeps_file_witness:
  "\<not> url_rejected (JStr ''http://example.com/live.m3u8'') \<and>
   files (snd (server_handler ''/app'' 1700000000000
      (\<lambda>c f. (ExecReturns,
         f\<lparr>files := (files f)(''/app/public/downloads/converted_1700000000000.mp4'' \<mapsto> ''video'')\<rparr>))
      (JStr ''http://example.com/live.m3u8'') \<lparr>files = Map.empty, unlink_error = Map.empty\<rparr>))
     ''/app/public/downloads/converted_1700000000000.mp4'' = Some ''video'' \<and>
   map downloadUrl (responses (fst (server_handler ''/app'' 1700000000000
      (\<lambda>c f. (ExecReturns,
         f\<lparr>files := (files f)(''/app/public/downloads/converted_1700000000000.mp4'' \<mapsto> ''video'')\<rparr>))
      (JStr ''http://example.com/live.m3u8'') \<lparr>files = Map.empty, unlink_error = Map.empty\<rparr>))) =
     [JStr (''/downloads/'' @ path_basename ''/app/public/downloads/converted_1700000000000.mp4'')] \<and>
   files (disk (run_events ''/tmp/converted_1700000000000.mp4''
      \<lparr>responseSent = False, trace = [],
       disk = \<lparr>files = [''/tmp/converted_1700000000000.mp4'' \<mapsto> ''video''],
               unlink_error = Map.empty\<rparr>\<rparr>
      [Progress (Some 30), Progress (Some 70), End])) ''/tmp/converted_1700000000000.mp4'' = Some ''video''"
proof -
  note w = success_keeps_file
    [where v = "JStr ''http://example.com/live.m3u8''" and dirname = "''/app''"
       and now = 1700000000000
       and execSync = "\<lambda>c f. (ExecReturns,
         f\<lparr>files := (files f)(''/app/public/downloads/converted_1700000000000.mp4'' \<mapsto> ''video'')\<rparr>)"
       and ?fs0.0 = "\<lparr>files = Map.empty, unlink_error = Map.empty\<rparr>"
       and ?fs1.0 = "\<lparr>files = [''/app/public/downloads/converted_1700000000000.mp4'' \<mapsto> ''video''],
               unlink_error = Map.empty\<rparr>"
       and s = "\<lparr>responseSent = False, trace = [],
       disk = \<lparr>files = [''/tmp/converted_1700000000000.mp4'' \<mapsto> ''video''],
               unlink_error = Map.empty\<rparr>\<rparr>"
       and p = "''/tmp/converted_1700000000000.mp4''"
       and evs = "[Progress (Some 30), Progress (Some 70), End]"]
  have e: "\<forall>err stderr. Error err stderr \<notin> set [Progress (Some 30), Progress (Some 70), End]"
    by simp
  from w e show ?thesis
    by (simp add: example_url_accepted server_path_example)
qed

subsection \<open>C5: the URL on the command line\<close>

text \<open>
  C5 says that for every accepted request the invocation of the tool holds the protocol
  allow-list, the stream-copy flag, the audio bitstream filter, the submitted URL as its
  input and the reserved path as its output. \<^verbatim>\<open>src/index.js\<close> does so: the URL is an
  argument of its own (\<open>index_invocation_exact\<close>). \<^verbatim>\<open>src/server.js\<close> pastes the URL
  between two double quotes into a command line for the shell and escapes nothing. As long
  as the URL and the output path hold no double quote, dollar, backquote or backslash, the
  shell starts \<^verbatim>\<open>ffmpeg\<close> with exactly the claimed words (\<open>server_invocation_plain\<close>).
  But the validation also accepts \<^verbatim>\<open>http://x" -i "/etc/passwd\<close>: the quote inside the
  URL closes the quoted stretch, and \<^verbatim>\<open>ffmpeg\<close> is started with the input
  \<^verbatim>\<open>http://x\<close> and a second input \<^verbatim>\<open>/etc/passwd\<close>; the submitted URL is not among its
  arguments.
\<close>

theorem quoted_url_splits_input:
  "\<not> url_rejected (JStr (''http://x'' @ dq @ '' -i '' @ dq @ ''/etc/passwd'')) \<and>
   map sh_words (executed (fst (server_handler ''/app'' 1700000000000 (\<lambda>c f. (ExecReturns, f))
      (JStr (''http://x'' @ dq @ '' -i '' @ dq @ ''/etc/passwd''))
      \<lparr>files = Map.empty, unlink_error = Map.empty\<rparr>))) =
     [Some [''ffmpeg'', ''-y'', ''-protocol_whitelist'', ''file,http,https,tcp,tls,crypto'',
            ''-i'', ''http://x'', ''-i'', ''/etc/passwd'', ''-bsf:a'', ''aac_adtstoasc'',
            ''-c'', ''copy'', ''/app/public/downloads/converted_1700000000000.mp4'']]"
proof -
  have e: "executed (fst (server_handler ''/app'' 1700000000000 (\<lambda>c f. (ExecReturns, f))
      (JStr (''http://x'' @ dq @ '' -i '' @ dq @ ''/etc/passwd''))
      \<lparr>files = Map.empty, unlink_error = Map.empty\<rparr>)) =
    [command (''http://x'' @ dq @ '' -i '' @ dq @ ''/etc/passwd'')
       ''/app/public/downloads/converted_1700000000000.mp4'']"
    using server_handler_executed [OF quoted_url_accepted, of "''/app''" 1700000000000
        "\<lambda>c f. (ExecReturns, f)" "\<lparr>files = Map.empty, unlink_error = Map.empty\<rparr>"]
    by (simp only: str_of.simps server_path_example)
  have w: "sh_words (command (''http://x'' @ dq @ '' -i '' @ dq @ ''/etc/passwd'')
       ''/app/public/downloads/converted_1700000000000.mp4'') =
     Some [''ffmpeg'', ''-y'', ''-protocol_whitelist'', ''file,http,https,tcp,tls,crypto'',
            ''-i'', ''http://x'', ''-i'', ''/etc/passwd'', ''-bsf:a'', ''aac_adtstoasc'',
            ''-c'', ''copy'', ''/app/public/downloads/converted_1700000000000.mp4'']"
    by (simp add: sh_words_def command_def dq_def protocol_whitelist_def
        sh_blank_def sh_meta_def dq_special_def)
  show ?thesis
  proof (intro conjI)
    show "\<not> url_rejected (JStr (''http://x'' @ dq @ '' -i '' @ dq @ ''/etc/passwd''))"
      by (rule quoted_url_accepted)
    show "map sh_words (executed (fst (server_handler ''/app'' 1700000000000 (\<lambda>c f. (ExecReturns, f))
        (JStr (''http://x'' @ dq @ '' -i '' @ dq @ ''/etc/passwd''))
        \<lparr>files = Map.empty, unlink_error = Map.empty\<rparr>))) =
      [Some [''ffmpeg'', ''-y'', ''-protocol_whitelist'', ''file,http,https,tcp,tls,crypto'',
            ''-i'', ''http://x'', ''-i'', ''/etc/passwd'', ''-bsf:a'', ''aac_adtstoasc'',
            ''-c'', ''copy'', ''/app/public/downloads/converted_1700000000000.mp4'']]"
      by (simp only: e w list.map)
  qed
qed

subsection \<open>C8: two requests in the same millisecond\<close>

text \<open>
  C8 says that distinct jobs never share an output path. The path is made from
  \<^verbatim>\<open>Date.now()\<close> alone (\<open>index_outputPath_inj\<close>, \<open>server_outputPath_inj\<close>: two
  paths are equal exactly when the clock values are), so two requests for different URLs
  that read the same millisecond are given the same file.
\<close>

theorem outputPath_collision:
  "map inv_output (spawned (trace (index_handler 1700000000000 SetupReturns
      (JStr ''http://a.example/one.m3u8'') \<lparr>files = Map.empty, unlink_error = Map.empty\<rparr>))) =
     [''/tmp/converted_1700000000000.mp4''] \<and>
   map inv_output (spawned (trace (index_handler 1700000000000 SetupReturns
      (JStr ''http://b.example/two.m3u8'') \<lparr>files = Map.empty, unlink_error = Map.empty\<rparr>))) =
     [''/tmp/converted_1700000000000.mp4'']"
  by (simp add: index_handler_def url_rejected_def startsWith_def Let_def index_path_example
      index_invocation_def)

end
